theory Spec2Isabelle
  imports Complex_Main "HOL-Library.AList" "HOL-Library.Sublist"
begin

section \<open>JavaScript numbers\<close>

text \<open>
  The server computes with JavaScript numbers. A number is modelled as a finite value,
  \<open>+Infinity\<close>, \<open>-Infinity\<close> or \<open>NaN\<close>. The special values follow IEEE 754 as JavaScript
  applies it. Finite values are rationals and arithmetic on them is exact: the rounding of
  binary floating point and its overflow are not modelled, and \<open>-0\<close> is the same value as
  \<open>0\<close> (the code never divides by a zero, so the sign of a zero is never observed).
\<close>

datatype jsnum = Fin rat | PosInf | NegInf | NaN

fun jneg :: "jsnum \<Rightarrow> jsnum" where
  "jneg (Fin x) = Fin (- x)"
| "jneg PosInf = NegInf"
| "jneg NegInf = PosInf"
| "jneg NaN = NaN"

text \<open>The operator \<open>a + b\<close> on two numbers.\<close>

fun jadd :: "jsnum \<Rightarrow> jsnum \<Rightarrow> jsnum" where
  "jadd (Fin x) (Fin y) = Fin (x + y)"
| "jadd (Fin x) PosInf = PosInf"
| "jadd (Fin x) NegInf = NegInf"
| "jadd (Fin x) NaN = NaN"
| "jadd PosInf (Fin y) = PosInf"
| "jadd PosInf PosInf = PosInf"
| "jadd PosInf NegInf = NaN"
| "jadd PosInf NaN = NaN"
| "jadd NegInf (Fin y) = NegInf"
| "jadd NegInf PosInf = NaN"
| "jadd NegInf NegInf = NegInf"
| "jadd NegInf NaN = NaN"
| "jadd NaN b = NaN"

text \<open>The operator \<open>a - b\<close>.\<close>

definition jsub :: "jsnum \<Rightarrow> jsnum \<Rightarrow> jsnum" where
  "jsub a b = jadd a (jneg b)"

text \<open>The sign of an infinite product or quotient.\<close>

definition signed_inf :: "bool \<Rightarrow> jsnum" where
  "signed_inf positive = (if positive then PosInf else NegInf)"

text \<open>The operator \<open>a * b\<close>: an infinity times zero is \<open>NaN\<close>.\<close>

fun jmul :: "jsnum \<Rightarrow> jsnum \<Rightarrow> jsnum" where
  "jmul (Fin x) (Fin y) = Fin (x * y)"
| "jmul (Fin x) PosInf = (if x = 0 then NaN else signed_inf (0 < x))"
| "jmul (Fin x) NegInf = (if x = 0 then NaN else signed_inf (x < 0))"
| "jmul (Fin x) NaN = NaN"
| "jmul PosInf (Fin y) = (if y = 0 then NaN else signed_inf (0 < y))"
| "jmul PosInf PosInf = PosInf"
| "jmul PosInf NegInf = NegInf"
| "jmul PosInf NaN = NaN"
| "jmul NegInf (Fin y) = (if y = 0 then NaN else signed_inf (y < 0))"
| "jmul NegInf PosInf = NegInf"
| "jmul NegInf NegInf = PosInf"
| "jmul NegInf NaN = NaN"
| "jmul NaN b = NaN"

text \<open>
  The operator \<open>a / b\<close>. A finite non-zero value over zero is an infinity whose sign
  JavaScript takes from both operands; with one zero only, the model takes it from the
  numerator.
\<close>

fun jdiv :: "jsnum \<Rightarrow> jsnum \<Rightarrow> jsnum" where
  "jdiv (Fin x) (Fin y) =
     (if y = 0 then (if x = 0 then NaN else signed_inf (0 < x)) else Fin (x / y))"
| "jdiv (Fin x) PosInf = Fin 0"
| "jdiv (Fin x) NegInf = Fin 0"
| "jdiv (Fin x) NaN = NaN"
| "jdiv PosInf (Fin y) = signed_inf (0 \<le> y)"
| "jdiv PosInf PosInf = NaN"
| "jdiv PosInf NegInf = NaN"
| "jdiv PosInf NaN = NaN"
| "jdiv NegInf (Fin y) = signed_inf (y < 0)"
| "jdiv NegInf PosInf = NaN"
| "jdiv NegInf NegInf = NaN"
| "jdiv NegInf NaN = NaN"
| "jdiv NaN b = NaN"

text \<open>The comparisons \<open>a < b\<close> and \<open>a <= b\<close>: false as soon as one side is \<open>NaN\<close>.\<close>

fun jlt :: "jsnum \<Rightarrow> jsnum \<Rightarrow> bool" where
  "jlt (Fin x) (Fin y) = (x < y)"
| "jlt (Fin x) PosInf = True"
| "jlt (Fin x) NegInf = False"
| "jlt (Fin x) NaN = False"
| "jlt PosInf b = False"
| "jlt NegInf (Fin y) = True"
| "jlt NegInf PosInf = True"
| "jlt NegInf NegInf = False"
| "jlt NegInf NaN = False"
| "jlt NaN b = False"

fun jle :: "jsnum \<Rightarrow> jsnum \<Rightarrow> bool" where
  "jle (Fin x) (Fin y) = (x \<le> y)"
| "jle (Fin x) PosInf = True"
| "jle (Fin x) NegInf = False"
| "jle (Fin x) NaN = False"
| "jle PosInf (Fin y) = False"
| "jle PosInf PosInf = True"
| "jle PosInf NegInf = False"
| "jle PosInf NaN = False"
| "jle NegInf (Fin y) = True"
| "jle NegInf PosInf = True"
| "jle NegInf NegInf = True"
| "jle NegInf NaN = False"
| "jle NaN b = False"


text \<open>\<open>!a\<close> on a number: true for zero and for \<open>NaN\<close>.\<close>

definition falsy :: "jsnum \<Rightarrow> bool" where
  "falsy a = (a = Fin 0 \<or> a = NaN)"

text \<open>\<open>a || 0\<close> on a number.\<close>

definition or0 :: "jsnum \<Rightarrow> jsnum" where
  "or0 a = (if falsy a then Fin 0 else a)"

text \<open>
  \<open>Number(a.toFixed(2))\<close>: the decimal with two fraction digits nearest to \<open>a\<close>, the
  larger in magnitude of two that are equally near, read back as a number. An infinity
  and \<open>NaN\<close> print as their names and read back as themselves. From \<open>10^21\<close> on
  \<open>toFixed\<close> prints the shortest decimal that reads back as the same number; a
  floating-point number of that size is an integer, which the rounding leaves as it is.
\<close>

definition round2 :: "rat \<Rightarrow> rat" where
  "round2 x =
     (if x < 0 then - (of_int \<lfloor>- x * 100 + 1 / 2\<rfloor> / 100)
      else of_int \<lfloor>x * 100 + 1 / 2\<rfloor> / 100)"

fun toFixed2 :: "jsnum \<Rightarrow> jsnum" where
  "toFixed2 (Fin x) = Fin (round2 x)"
| "toFixed2 PosInf = PosInf"
| "toFixed2 NegInf = NegInf"
| "toFixed2 NaN = NaN"

section \<open>Stored values\<close>

text \<open>
  A scalar field of the users file, as \<open>JSON.parse\<close> returns it: missing
  (\<open>undefined\<close>), \<open>null\<close>, a boolean or a number. \<open>JSON.stringify\<close> writes only
  finite numbers, so a stored number is finite. Strings are left out of the numeric
  fields.
\<close>

datatype jsval = JUndefined | JNull | JBool bool | JNum rat

text \<open>\<open>Number(v)\<close>.\<close>

fun Number :: "jsval \<Rightarrow> jsnum" where
  "Number JUndefined = NaN"
| "Number JNull = Fin 0"
| "Number (JBool b) = Fin (if b then 1 else 0)"
| "Number (JNum r) = Fin r"

text \<open>\<open>!v\<close> on a stored scalar.\<close>

fun falsy_val :: "jsval \<Rightarrow> bool" where
  "falsy_val JUndefined = True"
| "falsy_val JNull = True"
| "falsy_val (JBool b) = (\<not> b)"
| "falsy_val (JNum r) = (r = 0)"

text \<open>
  What \<open>JSON.stringify\<close> writes for a number, read back: an infinity and \<open>NaN\<close> are
  written as \<open>null\<close>.
\<close>

fun stringify :: "jsnum \<Rightarrow> jsval" where
  "stringify (Fin x) = JNum x"
| "stringify PosInf = JNull"
| "stringify NegInf = JNull"
| "stringify NaN = JNull"

section \<open>Symbols\<close>

text \<open>
  A symbol is a string of ASCII characters. \<open>trim\<close> removes the white space at both
  ends and \<open>toUpperCase\<close> maps the letters \<open>a\<close> to \<open>z\<close> to \<open>A\<close> to \<open>Z\<close>.
\<close>

definition isWhiteSpace :: "char \<Rightarrow> bool" where
  "isWhiteSpace c = (c \<in> set [CHR 0x20, CHR 0x09, CHR 0x0A, CHR 0x0B, CHR 0x0C, CHR 0x0D])"

definition trim :: "string \<Rightarrow> string" where
  "trim s = rev (dropWhile isWhiteSpace (rev (dropWhile isWhiteSpace s)))"

definition toUpperChar :: "char \<Rightarrow> char" where
  "toUpperChar c =
     (case map_of (zip ''abcdefghijklmnopqrstuvwxyz'' ''ABCDEFGHIJKLMNOPQRSTUVWXYZ'') c of
        Some u \<Rightarrow> u
      | None \<Rightarrow> c)"

definition toUpperCase :: "string \<Rightarrow> string" where
  "toUpperCase s = map toUpperChar s"

section \<open>The users file\<close>

text \<open>
  A holding is an object with the fields \<open>position\<close> and \<open>averagePrice\<close>: scalars of
  the file when it is stored, numbers while a trade computes with it.
\<close>

record 'a holding =
  position :: 'a
  averagePrice :: 'a

text \<open>
  A history entry. The fields \<open>id\<close>, \<open>type\<close> and \<open>symbol\<close> of the source are
  \<open>entry_id\<close>, \<open>entry_type\<close> and \<open>entry_symbol\<close>; an entry written before symbols
  existed has no \<open>symbol\<close>.
\<close>

record entry =
  entry_id :: string
  timestamp :: string
  entry_type :: string
  entry_symbol :: "string option"
  quantity :: jsval
  price :: jsval
  balanceAfter :: jsval
  positionAfter :: jsval
  realizedPnl :: jsval

text \<open>
  A user record. \<open>holdings\<close>, \<open>history\<close> and \<open>aiInsights\<close> are \<open>None\<close> when the
  record has no such object (or no array, for \<open>history\<close>); the AI insight states are
  kept as opaque text. \<open>user_position\<close> and \<open>user_averagePrice\<close> are the fields
  \<open>position\<close> and \<open>averagePrice\<close> of a record of the older shape.
\<close>

record user =
  password :: string
  balance :: jsval
  holdings :: "(string \<times> jsval holding) list option"
  history :: "entry list option"
  aiInsights :: "(string \<times> string) list option"
  user_position :: jsval
  user_averagePrice :: jsval

text \<open>The parsed content of the users file: an object keyed by user name.\<close>

type_synonym users = "(string \<times> user) list"

definition INITIAL_BALANCE :: rat where
  "INITIAL_BALANCE = 1000000"

text \<open>The record \<open>handleRegister\<close> stores for a new user.\<close>

definition newUser :: "string \<Rightarrow> user" where
  "newUser pw =
     \<lparr>password = pw, balance = JNum INITIAL_BALANCE, holdings = Some [], history = Some [],
      aiInsights = Some [], user_position = JUndefined, user_averagePrice = JUndefined\<rparr>"

text \<open>\<open>writeUsers\<close> replaces the content of the file.\<close>

definition writeUsers :: "users \<Rightarrow> users" where
  "writeUsers us = us"

subsection \<open>Normalisation on load\<close>

text \<open>
  The holdings that \<open>normalizeUsers\<close> builds for a record without \<open>holdings\<close>: the
  older position under \<open>HOG\<close>, when it is a number other than zero.
\<close>

definition legacyHoldings :: "user \<Rightarrow> (string \<times> jsval holding) list" where
  "legacyHoldings u =
     (case user_position u of
        JNum r \<Rightarrow>
          (if r \<noteq> 0 then
             [(''HOG'',
               \<lparr>position = JNum r,
                averagePrice =
                  stringify (Number (if falsy_val (user_averagePrice u) then JNum 0
                                     else user_averagePrice u))\<rparr>)]
           else [])
      | _ \<Rightarrow> [])"

definition missingSymbol :: "entry \<Rightarrow> bool" where
  "missingSymbol e = (entry_symbol e = None \<or> entry_symbol e = Some [])"

definition tagSymbol :: "entry \<Rightarrow> entry" where
  "tagSymbol e = (if missingSymbol e then e\<lparr>entry_symbol := Some ''HOG''\<rparr> else e)"

text \<open>The body of the loop of \<open>normalizeUsers\<close>: the record and whether it changed.\<close>

definition normalizeUser :: "user \<Rightarrow> user \<times> bool" where
  "normalizeUser u =
     (let (u1, updated1) =
            (if holdings u = None then
               (u\<lparr>holdings := Some (legacyHoldings u), user_position := JUndefined,
                   user_averagePrice := JUndefined\<rparr>, True)
             else (u, False));
          (u2, updated2) =
            (if history u1 = None then (u1\<lparr>history := Some []\<rparr>, True) else (u1, updated1));
          (u3, updated3) =
            (if aiInsights u2 = None then (u2\<lparr>aiInsights := Some []\<rparr>, True)
             else (u2, updated2));
          es = (case history u3 of None \<Rightarrow> [] | Some es \<Rightarrow> es);
          historyUpdated = list_ex missingSymbol es
      in (u3\<lparr>history := Some (map tagSymbol es)\<rparr>, updated3 \<or> historyUpdated))"

fun normalizeEntries :: "users \<Rightarrow> users \<times> bool" where
  "normalizeEntries [] = ([], False)"
| "normalizeEntries ((username, u) # rest) =
     (let (u', changed) = normalizeUser u;
          (rest', updated) = normalizeEntries rest
      in ((username, u') # rest', changed \<or> updated))"

text \<open>
  \<open>normalizeUsers\<close> on the parsed file: the normalised table and the content of the
  file afterwards.
\<close>

definition normalizeUsers :: "users \<Rightarrow> users \<times> users" where
  "normalizeUsers file =
     (let (us, updated) = normalizeEntries file
      in (us, if updated then writeUsers us else file))"

definition readUsers :: "users \<Rightarrow> users \<times> users" where
  "readUsers file = normalizeUsers file"

section \<open>Requests\<close>

text \<open>
  The failures of a request, by the name the specification gives each response of the
  source: status 400 with the messages for an invalid trade type, a missing contract, a
  quantity or price that is not positive, an insufficient balance and an insufficient
  position, and status 404 for a user that does not exist.
\<close>

datatype error =
  InvalidSide | InvalidSymbol | InvalidAmount | UnknownAccount
  | InsufficientFunds | InsufficientPosition

subsection \<open>History\<close>

text \<open>
  \<open>handleHistory\<close> for an authenticated user; \<open>param\<close> is
  \<open>searchParams.get('symbol')\<close>, \<open>None\<close> when the query has no such parameter.
  The result is the response and the content of the file afterwards.
\<close>

definition handleHistory :: "users \<Rightarrow> string \<Rightarrow> string option \<Rightarrow> (error + entry list) \<times> users" where
  "handleHistory file username param =
     (let (us, file1) = readUsers file in
      case map_of us username of
        None \<Rightarrow> (Inl UnknownAccount, file1)
      | Some u \<Rightarrow>
          (let symbol = toUpperCase (case param of None \<Rightarrow> [] | Some s \<Rightarrow> s);
               es = (case history u of None \<Rightarrow> [] | Some es \<Rightarrow> es)
           in (Inr (if symbol \<noteq> [] then filter (\<lambda>e. entry_symbol e = Some symbol) es else es),
               file1)))"

subsection \<open>Properties of trades\<close>

text \<open>\<open>ensureHoldingStructure\<close>; the argument is \<open>None\<close> for \<open>undefined\<close>.\<close>

definition ensureHoldingStructure :: "jsval holding option \<Rightarrow> jsnum holding" where
  "ensureHoldingStructure h =
     (let holding = (case h of None \<Rightarrow> \<lparr>position = JUndefined, averagePrice = JUndefined\<rparr>
                     | Some x \<Rightarrow> x)
      in \<lparr>position = or0 (Number (position holding)),
          averagePrice = or0 (Number (averagePrice holding))\<rparr>)"

text \<open>
  The body of a trade request after the two coercions \<open>qty = Number(quantity)\<close> and
  \<open>tradePrice = Number(price)\<close>. \<open>body_type\<close> and \<open>body_symbol\<close> are the fields
  \<open>type\<close> and \<open>symbol\<close>, \<open>None\<close> when the field is not a string.
\<close>

record body =
  body_type :: "string option"
  qty :: jsnum
  tradePrice :: jsnum
  body_symbol :: "string option"

text \<open>The local \<open>trimmedSymbol\<close>: the empty string when \<open>symbol\<close> is not a string.\<close>

definition trimmedSymbol :: "body \<Rightarrow> string" where
  "trimmedSymbol b = (case body_symbol b of None \<Rightarrow> [] | Some s \<Rightarrow> toUpperCase (trim s))"

text \<open>
  The branch on the trade type: the new balance, the new holding and the realised profit,
  or the failure.
\<close>

definition settle ::
  "string \<Rightarrow> jsnum \<Rightarrow> jsnum \<Rightarrow> jsval \<Rightarrow> jsnum holding \<Rightarrow> error + (jsnum \<times> jsnum holding \<times> jsnum)" where
  "settle type q p bal holding =
     (if type = ''buy'' then
        (let cost = jmul p q in
         if jlt (Number bal) cost then Inl InsufficientFunds
         else
           (let newPosition = jadd (position holding) q;
                newAvgPrice =
                  (if newPosition = Fin 0 then Fin 0
                   else jdiv (jadd (jmul (averagePrice holding) (position holding)) (jmul p q))
                          newPosition)
            in Inr (jsub (Number bal) cost,
                    \<lparr>position = newPosition, averagePrice = toFixed2 newAvgPrice\<rparr>,
                    Fin 0)))
      else
        (if jlt (position holding) q then Inl InsufficientPosition
         else
           (let revenue = jmul p q;
                realized = jmul (jsub p (averagePrice holding)) q;
                newPosition = jsub (position holding) q
            in Inr (jadd (Number bal) revenue,
                    \<lparr>position = newPosition,
                     averagePrice = (if newPosition = Fin 0 then Fin 0 else averagePrice holding)\<rparr>,
                    realized))))"

text \<open>
  The part of \<open>handleTrade\<close> that works on the record of the user, from the load of
  the holding to the new history: the entry and the new record, or the failure.
  \<open>uuid\<close> and \<open>now\<close> are what \<open>crypto.randomUUID()\<close> and
  \<open>new Date().toISOString()\<close> return. The numbers of the new record and of the entry
  are the ones \<open>JSON.stringify\<close> writes to the file and to the response.
\<close>

definition applyTrade :: "string \<Rightarrow> string \<Rightarrow> body \<Rightarrow> user \<Rightarrow> error + (entry \<times> user)" where
  "applyTrade uuid now b u =
     (let symbol = trimmedSymbol b;
          hs = (case holdings u of None \<Rightarrow> [] | Some hs \<Rightarrow> hs);
          holding = ensureHoldingStructure (map_of hs symbol)
      in case settle (the (body_type b)) (qty b) (tradePrice b) (balance u) holding of
           Inl e \<Rightarrow> Inl e
         | Inr (bal', holding', realized) \<Rightarrow>
             (let hs' =
                    (if position holding' = Fin 0 then AList.delete symbol hs
                     else AList.update symbol
                            \<lparr>position = stringify (position holding'),
                             averagePrice = stringify (averagePrice holding')\<rparr> hs);
                  e = \<lparr>entry_id = uuid, timestamp = now, entry_type = the (body_type b),
                       entry_symbol = Some symbol, quantity = stringify (qty b),
                       price = stringify (tradePrice b), balanceAfter = stringify bal',
                       positionAfter = stringify (position holding'),
                       realizedPnl = stringify (toFixed2 realized)\<rparr>;
                  u' = u\<lparr>balance := stringify bal', holdings := Some hs',
                         history := Some (e # (case history u of None \<Rightarrow> [] | Some es \<Rightarrow> es))\<rparr>
              in Inr (e, u')))"

text \<open>
  \<open>handleTrade\<close> for an authenticated user: the response and the content of the file
  afterwards.
\<close>

definition handleTrade ::
  "string \<Rightarrow> string \<Rightarrow> users \<Rightarrow> string \<Rightarrow> body \<Rightarrow> (error + entry) \<times> users" where
  "handleTrade uuid now file username b =
     (if body_type b \<noteq> Some ''buy'' \<and> body_type b \<noteq> Some ''sell'' then (Inl InvalidSide, file)
      else if trimmedSymbol b = [] then (Inl InvalidSymbol, file)
      else if falsy (qty b) \<or> jle (qty b) (Fin 0) \<or> falsy (tradePrice b) \<or> jle (tradePrice b) (Fin 0)
      then (Inl InvalidAmount, file)
      else
        (let (us, file1) = readUsers file in
         case map_of us username of
           None \<Rightarrow> (Inl UnknownAccount, file1)
         | Some u \<Rightarrow>
             (case applyTrade uuid now b u of
                Inl e \<Rightarrow> (Inl e, file1)
              | Inr (e, u') \<Rightarrow> (Inr e, writeUsers (AList.update username u' us)))))"

text \<open>
  A trade request as the server receives it, and a sequence of them run against the
  file.
\<close>

record call =
  call_uuid :: string
  call_now :: string
  call_user :: string
  call_body :: body

fun run :: "users \<Rightarrow> call list \<Rightarrow> users" where
  "run file [] = file"
| "run file (c # cs) =
     run (snd (handleTrade (call_uuid c) (call_now c) file (call_user c) (call_body c))) cs"

section \<open>Shapes of records\<close>

text \<open>
  A record of the current shape: it has \<open>holdings\<close>, a \<open>history\<close> array whose
  entries all carry a symbol, and \<open>aiInsights\<close>.
\<close>

definition currentShape :: "user \<Rightarrow> bool" where
  "currentShape u =
     (holdings u \<noteq> None \<and> aiInsights u \<noteq> None \<and>
      (case history u of None \<Rightarrow> False | Some es \<Rightarrow> list_all (\<lambda>e. \<not> missingSymbol e) es))"




text \<open>
  A body that passes the three checks of the input: a trade type, a symbol that is not
  empty after trimming, and a quantity and a price above zero as JavaScript compares
  them.
\<close>

definition accepted :: "body \<Rightarrow> bool" where
  "accepted b =
     ((body_type b = Some ''buy'' \<or> body_type b = Some ''sell'') \<and> trimmedSymbol b \<noteq> [] \<and>
      jlt (Fin 0) (qty b) \<and> jlt (Fin 0) (tradePrice b))"

text \<open>The holdings of a record as the trade reads them.\<close>

definition holdingsOf :: "user \<Rightarrow> (string \<times> jsval holding) list" where
  "holdingsOf u = (case holdings u of None \<Rightarrow> [] | Some hs \<Rightarrow> hs)"



section \<open>Sample requests\<close>

text \<open>
  The scenarios of the specification: a file with the new account of \<open>alice\<close>, and
  orders for the contract \<open>HOG\<close>, written in lower case with a blank on each side.
\<close>

definition aliceFile :: users where
  "aliceFile = [(''alice'', newUser ''secret'')]"

definition order :: "string \<Rightarrow> jsnum \<Rightarrow> jsnum \<Rightarrow> body" where
  "order side q p = \<lparr>body_type = Some side, qty = q, tradePrice = p, body_symbol = Some '' hog ''\<rparr>"

definition request :: "string \<Rightarrow> body \<Rightarrow> call" where
  "request n b =
     \<lparr>call_uuid = n, call_now = ''2024-01-01T00:00:00.000Z'', call_user = ''alice'', call_body = b\<rparr>"

definition scenario :: "call list" where
  "scenario =
     [request ''1'' (order ''buy'' (Fin 10) (Fin 120)),
      request ''2'' (order ''buy'' (Fin 5) (Fin 130)),
      request ''3'' (order ''sell'' (Fin 15) (Fin 140))]"

text \<open>The file after the first two orders of the scenario.\<close>

definition heldAccount :: user where
  "heldAccount =
     \<lparr>password = ''secret'', balance = JNum 998150,
      holdings = Some [(''HOG'', \<lparr>position = JNum 15, averagePrice = JNum (12333 / 100)\<rparr>)],
      history =
        Some [\<lparr>entry_id = ''2'', timestamp = ''2024-01-01T00:00:00.000Z'', entry_type = ''buy'',
               entry_symbol = Some ''HOG'', quantity = JNum 5, price = JNum 130,
               balanceAfter = JNum 998150, positionAfter = JNum 15, realizedPnl = JNum 0\<rparr>,
              \<lparr>entry_id = ''1'', timestamp = ''2024-01-01T00:00:00.000Z'', entry_type = ''buy'',
               entry_symbol = Some ''HOG'', quantity = JNum 10, price = JNum 120,
               balanceAfter = JNum 998800, positionAfter = JNum 10, realizedPnl = JNum 0\<rparr>],
      aiInsights = Some [], user_position = JUndefined, user_averagePrice = JUndefined\<rparr>"

definition heldFile :: users where
  "heldFile = [(''alice'', heldAccount)]"

text \<open>The file after a further order for the contract \<open>GOLD\<close>.\<close>

definition goldOrder :: body where
  "goldOrder = \<lparr>body_type = Some ''buy'', qty = Fin 1, tradePrice = Fin 400, body_symbol = Some ''gold''\<rparr>"

definition mixedFile :: users where
  "mixedFile =
     run heldFile
       [\<lparr>call_uuid = ''g'', call_now = ''2024-01-03T00:00:00.000Z'', call_user = ''alice'',
         call_body = goldOrder\<rparr>]"



section \<open>Properties of the normalisation\<close>

lemma map_tagSymbol_id: "list_all (\<lambda>e. \<not> missingSymbol e) es \<Longrightarrow> map tagSymbol es = es"
  by (induction es) (simp_all add: tagSymbol_def)

lemma list_ex_missing: "list_all (\<lambda>e. \<not> missingSymbol e) es \<Longrightarrow> \<not> list_ex missingSymbol es"
  by (induction es) simp_all

lemma normalizeUser_current: "currentShape u \<Longrightarrow> normalizeUser u = (u, False)"
  by (cases "history u")
     (auto simp: currentShape_def normalizeUser_def map_tagSymbol_id list_ex_missing)

lemma not_missing_tagSymbol: "\<not> missingSymbol (tagSymbol e)"
  by (simp add: tagSymbol_def missingSymbol_def)

lemma currentShape_normalizeUser: "currentShape (fst (normalizeUser u))"
  by (auto simp: currentShape_def normalizeUser_def Let_def list_all_iff not_missing_tagSymbol split: option.splits prod.splits if_splits)

lemma snd_normalizeUser: "snd (normalizeUser u) = (\<not> currentShape u)"
  by (cases "history u")
   (auto simp: currentShape_def normalizeUser_def Let_def list_all_iff list_ex_iff split: option.splits prod.splits if_splits)

lemma fst_normalizeEntries:
  "fst (normalizeEntries tbl) = map (\<lambda>(name, u). (name, fst (normalizeUser u))) tbl"
  by (induction tbl) (auto split: prod.splits)

lemma snd_normalizeEntries:
  "snd (normalizeEntries tbl) = list_ex (\<lambda>(name, u). \<not> currentShape u) tbl"
proof (induction tbl)
  case Nil
  show ?case by simp
next
  case (Cons a tbl)
  obtain name u where a: "a = (name, u)" by (cases a)
  show ?case using Cons
    by (simp add: a snd_normalizeUser [symmetric] case_prod_beta)
qed

lemma normalizeEntries_unchanged:
  "\<not> snd (normalizeEntries tbl) \<Longrightarrow> fst (normalizeEntries tbl) = tbl"
  unfolding snd_normalizeEntries fst_normalizeEntries
  by (induction tbl) (auto simp: normalizeUser_current)

lemma readUsers_eq: "readUsers tbl = (fst (normalizeEntries tbl), fst (normalizeEntries tbl))"
  using normalizeEntries_unchanged [of tbl]
  by (auto simp: readUsers_def normalizeUsers_def writeUsers_def split: prod.splits)

lemma map_of_normalizeEntries:
  "map_of (fst (normalizeEntries tbl)) name = map_option (\<lambda>u. fst (normalizeUser u)) (map_of tbl name)"
  unfolding fst_normalizeEntries by (induction tbl) auto

lemma normalizeEntries_idem:
  "normalizeEntries (fst (normalizeEntries tbl)) = (fst (normalizeEntries tbl), False)"
proof -
  have "\<not> snd (normalizeEntries (fst (normalizeEntries tbl)))"
    unfolding snd_normalizeEntries fst_normalizeEntries
    by (induction tbl) (auto simp: currentShape_normalizeUser)
  then show ?thesis
    using normalizeEntries_unchanged [of "fst (normalizeEntries tbl)"]
    by (simp add: prod_eq_iff)
qed

lemma normalizeUser_changes: "\<not> currentShape u \<Longrightarrow> fst (normalizeUser u) \<noteq> u"
proof
  assume bad: "\<not> currentShape u" and same: "fst (normalizeUser u) = u"
  have "currentShape (fst (normalizeUser u))" by (rule currentShape_normalizeUser)
  with bad show False unfolding same by simp
qed

lemma normalizeEntries_changed:
  "snd (normalizeEntries tbl) = (fst (normalizeEntries tbl) \<noteq> tbl)"
proof (cases "snd (normalizeEntries tbl)")
  case False
  then show ?thesis using normalizeEntries_unchanged [of tbl] by simp
next
  case True
  then obtain name u where in_tbl: "(name, u) \<in> set tbl" and bad: "\<not> currentShape u"
    unfolding snd_normalizeEntries list_ex_iff by auto
  have "map (\<lambda>(name, u). (name, fst (normalizeUser u))) tbl \<noteq> tbl"
  proof
    assume "map (\<lambda>(name, u). (name, fst (normalizeUser u))) tbl = tbl"
    then have "(\<lambda>(name, u). (name, fst (normalizeUser u))) (name, u) = (name, u)"
      using in_tbl by (fastforce simp: map_eq_conv [of _ tbl "\<lambda>x. x", simplified])
    then show False using normalizeUser_changes [OF bad] by simp
  qed
  with True show ?thesis by (simp add: fst_normalizeEntries)
qed

lemma legacy_holdings_number:
  "holdings u = None \<Longrightarrow> user_position u = JNum r \<Longrightarrow> r \<noteq> 0 \<Longrightarrow> user_averagePrice u = JNum a \<Longrightarrow>
   holdings (fst (normalizeUser u)) = Some [(''HOG'', \<lparr>position = JNum r, averagePrice = JNum a\<rparr>)]"
  by (simp add: normalizeUser_def legacyHoldings_def Let_def split: prod.splits)

lemma legacy_holdings_no_price:
  "holdings u = None \<Longrightarrow> user_position u = JNum r \<Longrightarrow> r \<noteq> 0 \<Longrightarrow> user_averagePrice u = JUndefined \<Longrightarrow>
   holdings (fst (normalizeUser u)) = Some [(''HOG'', \<lparr>position = JNum r, averagePrice = JNum 0\<rparr>)]"
  by (simp add: normalizeUser_def legacyHoldings_def Let_def split: prod.splits)

lemma legacy_holdings_none:
  "holdings u = None \<Longrightarrow> (\<forall>r. user_position u = JNum r \<longrightarrow> r = 0) \<Longrightarrow>
   holdings (fst (normalizeUser u)) = Some []"
  by (cases "user_position u") (simp_all add: normalizeUser_def legacyHoldings_def Let_def split: prod.splits)

lemma history_normalizeUser:
  "history (fst (normalizeUser u)) = Some (map tagSymbol (case history u of None \<Rightarrow> [] | Some es \<Rightarrow> es))"
  by (cases "history u") (simp_all add: normalizeUser_def Let_def split: prod.splits)

lemma readUsers_current:
  "list_all (\<lambda>(name, u). currentShape u) tbl \<Longrightarrow> readUsers tbl = (tbl, tbl)"
proof -
  assume "list_all (\<lambda>(name, u). currentShape u) tbl"
  then have "\<not> snd (normalizeEntries tbl)"
    unfolding snd_normalizeEntries list_all_iff list_ex_iff by auto
  then show ?thesis
    using normalizeEntries_unchanged [of tbl] by (simp add: readUsers_eq)
qed

section \<open>Trades\<close>

lemma positive_check: "(\<not> falsy x \<and> \<not> jle x (Fin 0)) = jlt (Fin 0) x"
  by (cases x) (auto simp: falsy_def)


lemma handleTrade_rejected:
  "\<not> accepted b \<Longrightarrow>
   handleTrade uuid now tbl username b =
     (Inl (if body_type b \<noteq> Some ''buy'' \<and> body_type b \<noteq> Some ''sell'' then InvalidSide
           else if trimmedSymbol b = [] then InvalidSymbol else InvalidAmount), tbl)"
  using positive_check [of "qty b"] positive_check [of "tradePrice b"]
  by (auto simp: accepted_def handleTrade_def)

lemma handleTrade_accepted:
  "accepted b \<Longrightarrow>
   handleTrade uuid now tbl username b =
     (case map_of (fst (normalizeEntries tbl)) username of
        None \<Rightarrow> (Inl UnknownAccount, fst (normalizeEntries tbl))
      | Some u \<Rightarrow>
          (case applyTrade uuid now b u of
             Inl e \<Rightarrow> (Inl e, fst (normalizeEntries tbl))
           | Inr (e, u') \<Rightarrow> (Inr e, AList.update username u' (fst (normalizeEntries tbl)))))"
  using positive_check [of "qty b"] positive_check [of "tradePrice b"]
  by (auto simp: accepted_def handleTrade_def readUsers_eq writeUsers_def
      split: option.splits sum.splits prod.splits)







lemma settle_sell_eq:
  "settle ''sell'' q p bal h =
     (if jlt (position h) q then Inl InsufficientPosition
      else Inr (jadd (Number bal) (jmul p q),
                \<lparr>position = jsub (position h) q,
                 averagePrice =
                   (if jsub (position h) q = Fin 0 then Fin 0 else averagePrice h)\<rparr>,
                jmul (jsub p (averagePrice h)) q))"
  by (simp add: settle_def Let_def)





lemma applyTrade_Inr:
  assumes "applyTrade uuid now b u = Inr (e, u')"
  shows "\<exists>bal' h' r.
     settle (the (body_type b)) (qty b) (tradePrice b) (balance u)
       (ensureHoldingStructure (map_of (holdingsOf u) (trimmedSymbol b))) = Inr (bal', h', r) \<and>
     e = \<lparr>entry_id = uuid, timestamp = now, entry_type = the (body_type b),
          entry_symbol = Some (trimmedSymbol b), quantity = stringify (qty b),
          price = stringify (tradePrice b), balanceAfter = stringify bal',
          positionAfter = stringify (position h'), realizedPnl = stringify (toFixed2 r)\<rparr> \<and>
     u' = u\<lparr>balance := stringify bal',
            holdings := Some (if position h' = Fin 0 then AList.delete (trimmedSymbol b) (holdingsOf u)
                              else AList.update (trimmedSymbol b)
                                     \<lparr>position = stringify (position h'),
                                      averagePrice = stringify (averagePrice h')\<rparr> (holdingsOf u)),
            history := Some (e # (case history u of None \<Rightarrow> [] | Some es \<Rightarrow> es))\<rparr>"
proof (cases "settle (the (body_type b)) (qty b) (tradePrice b) (balance u)
       (ensureHoldingStructure (map_of (holdingsOf u) (trimmedSymbol b)))")
  case (Inl err)
  then show ?thesis using assms by (simp add: applyTrade_def holdingsOf_def Let_def)
next
  case (Inr t)
  obtain bal' h' r where t: "t = (bal', h', r)" by (cases t)
  show ?thesis
    using assms Inr unfolding t
    by (intro exI [of _ bal'] exI [of _ h'] exI [of _ r])
       (auto simp: applyTrade_def holdingsOf_def Let_def)
qed

lemma applyTrade_Inl:
  "(applyTrade uuid now b u = Inl err) =
   (settle (the (body_type b)) (qty b) (tradePrice b) (balance u)
       (ensureHoldingStructure (map_of (holdingsOf u) (trimmedSymbol b))) = Inl err)"
  by (auto simp: applyTrade_def holdingsOf_def Let_def split: sum.splits prod.splits)









lemma loaded_account:
  "map_of tbl name = Some u \<Longrightarrow> currentShape u \<Longrightarrow> map_of (fst (normalizeEntries tbl)) name = Some u"
  by (simp add: map_of_normalizeEntries normalizeUser_current)

lemma loaded_missing:
  "(map_of (fst (normalizeEntries tbl)) name = None) = (map_of tbl name = None)"
  by (simp add: map_of_normalizeEntries)

lemma handleTrade_failure:
  assumes "fst (handleTrade uuid now tbl username b) = Inl err"
  shows "snd (handleTrade uuid now tbl username b) =
           (if err \<in> {InvalidSide, InvalidSymbol, InvalidAmount} then tbl
            else fst (normalizeEntries tbl))"
proof (cases "accepted b")
  case False
  then show ?thesis using assms by (auto simp: handleTrade_rejected split: if_splits)
next
  case True
  have "err \<in> {InsufficientFunds, InsufficientPosition}"
    if "applyTrade uuid now b u = Inl err" for u
    using that by (auto simp: applyTrade_Inl settle_def Let_def split: if_splits)
  then show ?thesis
    using assms True
    by (auto simp: handleTrade_accepted split: option.splits sum.splits prod.splits)
qed








lemma sell_rejected:
  assumes acc: "accepted b" and sell: "body_type b = Some ''sell''"
    and acct: "map_of tbl name = Some u" and cur: "currentShape u"
    and short: "jlt (position (ensureHoldingStructure (map_of (holdingsOf u) (trimmedSymbol b)))) (qty b)"
  shows "handleTrade uuid now tbl name b = (Inl InsufficientPosition, fst (normalizeEntries tbl))"
proof -
  have "applyTrade uuid now b u = Inl InsufficientPosition"
    using sell short by (simp add: applyTrade_Inl settle_sell_eq)
  then show ?thesis
    using acc loaded_account [OF acct cur] by (simp add: handleTrade_accepted)
qed

lemma all_current:
  "list_all (\<lambda>(name, u). currentShape u) tbl \<Longrightarrow> fst (normalizeEntries tbl) = tbl"
  using readUsers_current [of tbl] by (simp add: readUsers_eq)


lemma handleTrade_success:
  assumes "fst (handleTrade uuid now tbl name b) = Inr e"
  shows "\<exists>u u'. accepted b \<and> map_of (fst (normalizeEntries tbl)) name = Some u \<and>
           applyTrade uuid now b u = Inr (e, u') \<and>
           snd (handleTrade uuid now tbl name b) = AList.update name u' (fst (normalizeEntries tbl))"
proof (cases "accepted b")
  case False
  then show ?thesis using assms by (simp add: handleTrade_rejected)
next
  case True
  then show ?thesis
    using assms
    by (auto simp: handleTrade_accepted split: option.splits sum.splits prod.splits)
qed

lemma applyTrade_fields:
  assumes "applyTrade uuid now b u = Inr (e, u')"
  shows "\<exists>bal' h' r.
     settle (the (body_type b)) (qty b) (tradePrice b) (balance u)
       (ensureHoldingStructure (map_of (holdingsOf u) (trimmedSymbol b))) = Inr (bal', h', r) \<and>
     entry_symbol e = Some (trimmedSymbol b) \<and> balanceAfter e = stringify bal' \<and>
     positionAfter e = stringify (position h') \<and> realizedPnl e = stringify (toFixed2 r) \<and>
     balance u' = stringify bal' \<and>
     holdingsOf u' = (if position h' = Fin 0 then AList.delete (trimmedSymbol b) (holdingsOf u)
                      else AList.update (trimmedSymbol b)
                             \<lparr>position = stringify (position h'),
                              averagePrice = stringify (averagePrice h')\<rparr> (holdingsOf u)) \<and>
     holdings u' = Some (holdingsOf u') \<and>
     history u' = Some (e # (case history u of None \<Rightarrow> [] | Some es \<Rightarrow> es))"
proof -
  from applyTrade_Inr [OF assms] obtain bal' h' r where
    st: "settle (the (body_type b)) (qty b) (tradePrice b) (balance u)
       (ensureHoldingStructure (map_of (holdingsOf u) (trimmedSymbol b))) = Inr (bal', h', r)"
    and e: "e = \<lparr>entry_id = uuid, timestamp = now, entry_type = the (body_type b),
          entry_symbol = Some (trimmedSymbol b), quantity = stringify (qty b),
          price = stringify (tradePrice b), balanceAfter = stringify bal',
          positionAfter = stringify (position h'), realizedPnl = stringify (toFixed2 r)\<rparr>"
    and u': "u' = u\<lparr>balance := stringify bal',
            holdings := Some (if position h' = Fin 0 then AList.delete (trimmedSymbol b) (holdingsOf u)
                              else AList.update (trimmedSymbol b)
                                     \<lparr>position = stringify (position h'),
                                      averagePrice = stringify (averagePrice h')\<rparr> (holdingsOf u)),
            history := Some (e # (case history u of None \<Rightarrow> [] | Some es \<Rightarrow> es))\<rparr>"
    by blast
  have "entry_symbol e = Some (trimmedSymbol b) \<and> balanceAfter e = stringify bal' \<and>
     positionAfter e = stringify (position h') \<and> realizedPnl e = stringify (toFixed2 r)"
    by (simp add: e)
  moreover have "balance u' = stringify bal' \<and>
     holdingsOf u' = (if position h' = Fin 0 then AList.delete (trimmedSymbol b) (holdingsOf u)
                      else AList.update (trimmedSymbol b)
                             \<lparr>position = stringify (position h'),
                              averagePrice = stringify (averagePrice h')\<rparr> (holdingsOf u)) \<and>
     holdings u' = Some (holdingsOf u') \<and>
     history u' = Some (e # (case history u of None \<Rightarrow> [] | Some es \<Rightarrow> es))"
    by (simp add: u' holdingsOf_def)
  ultimately show ?thesis using st by blast
qed







lemma trimmed_order: "trimmedSymbol (order side q p) = ''HOG''"
  by (simp add: order_def trimmedSymbol_def trim_def isWhiteSpace_def
      toUpperCase_def toUpperChar_def)


lemma run_two_buys: "run aliceFile (take 2 scenario) = heldFile"
  by code_simp

lemma held_facts:
  "map_of heldFile ''alice'' = Some heldAccount"
  "currentShape heldAccount"
  "list_all (\<lambda>(name, u). currentShape u) heldFile"
  "ensureHoldingStructure (map_of (holdingsOf heldAccount) ''HOG'') =
     \<lparr>position = Fin 15, averagePrice = Fin (12333 / 100)\<rparr>"
  by (simp_all add: heldFile_def heldAccount_def currentShape_def missingSymbol_def holdingsOf_def
      ensureHoldingStructure_def or0_def falsy_def)


lemma accepted_sample: "0 < q \<Longrightarrow> 0 < p \<Longrightarrow> side = ''buy'' \<or> side = ''sell'' \<Longrightarrow>
    accepted (order side (Fin q) (Fin p))"
  by (auto simp: accepted_def trimmed_order) (simp_all add: order_def)

lemma oversell:
  "jlt (position (ensureHoldingStructure (map_of (holdingsOf heldAccount)
          (trimmedSymbol (order ''sell'' (Fin 20) (Fin 140))))))
       (qty (order ''sell'' (Fin 20) (Fin 140)))"
  by (simp add: trimmed_order held_facts) (simp add: order_def)






lemma body_facts:
  "body_type (order side q p) = Some side" "qty (order side q p) = q"
  "tradePrice (order side q p) = p"
  by (simp_all add: order_def)



lemma positive_iff: "jlt (Fin 0) x = (x = PosInf \<or> (\<exists>r. x = Fin r \<and> 0 < r))"
  by (cases x) auto

lemma applyTrade_errors:
  "applyTrade uuid now b u = Inl err \<Longrightarrow> err = InsufficientFunds \<or> err = InsufficientPosition"
  by (auto simp: applyTrade_Inl settle_def Let_def split: if_splits)

lemma handleTrade_unknown:
  "accepted b \<Longrightarrow> map_of tbl name = None \<Longrightarrow>
   handleTrade uuid now tbl name b = (Inl UnknownAccount, fst (readUsers tbl))"
  using loaded_missing [of tbl name]
  by (simp add: handleTrade_accepted readUsers_eq)

lemma handleTrade_known:
  assumes "accepted b" and "map_of tbl name \<noteq> None"
  shows "fst (handleTrade uuid now tbl name b) \<notin>
           {Inl InvalidSide, Inl InvalidSymbol, Inl InvalidAmount, Inl UnknownAccount}"
proof -
  obtain u where u: "map_of (fst (normalizeEntries tbl)) name = Some u"
    using assms(2) loaded_missing [of tbl name] by auto
  show ?thesis
  proof (cases "applyTrade uuid now b u")
    case (Inl err)
    then show ?thesis
      using assms(1) u applyTrade_errors [OF Inl] by (auto simp: handleTrade_accepted)
  next
    case (Inr t)
    then show ?thesis
      using assms(1) u by (cases t) (simp add: handleTrade_accepted)
  qed
qed

lemma handleTrade_symbol:
  assumes "fst (handleTrade uuid now tbl name b) = Inr e"
  shows "entry_symbol e = Some (trimmedSymbol b)"
proof -
  from handleTrade_success [OF assms] obtain u u' where "applyTrade uuid now b u = Inr (e, u')"
    by blast
  from applyTrade_fields [OF this] show ?thesis by blast
qed

lemma handleHistory_eq:
  "handleHistory tbl name param =
     (case map_of (fst (normalizeEntries tbl)) name of
        None \<Rightarrow> (Inl UnknownAccount, fst (normalizeEntries tbl))
      | Some u \<Rightarrow>
          (Inr (if toUpperCase (case param of None \<Rightarrow> [] | Some s \<Rightarrow> s) \<noteq> []
                then filter (\<lambda>e. entry_symbol e =
                                 Some (toUpperCase (case param of None \<Rightarrow> [] | Some s \<Rightarrow> s)))
                       (case history u of None \<Rightarrow> [] | Some es \<Rightarrow> es)
                else (case history u of None \<Rightarrow> [] | Some es \<Rightarrow> es)),
           fst (normalizeEntries tbl)))"
  by (simp add: handleHistory_def readUsers_eq Let_def split: option.splits)

lemma handleHistory_file: "snd (handleHistory tbl name param) = fst (normalizeEntries tbl)"
  by (simp add: handleHistory_eq split: option.splits)

lemma handleHistory_unknown:
  "map_of tbl name = None \<Longrightarrow> fst (handleHistory tbl name param) = Inl UnknownAccount"
  using loaded_missing [of tbl name] by (simp add: handleHistory_eq)

lemma handleHistory_all:
  assumes "map_of tbl name = Some u" and "history (fst (normalizeUser u)) = Some es"
    and "param = None \<or> param = Some []"
  shows "fst (handleHistory tbl name param) = Inr es"
  using assms by (auto simp: handleHistory_eq map_of_normalizeEntries toUpperCase_def)

lemma handleHistory_filter:
  assumes "map_of tbl name = Some u" and "history (fst (normalizeUser u)) = Some es"
    and "s \<noteq> []"
  shows "fst (handleHistory tbl name (Some s)) =
           Inr (filter (\<lambda>e. entry_symbol e = Some (toUpperCase s)) es)"
  using assms by (simp add: handleHistory_eq map_of_normalizeEntries toUpperCase_def)

lemma mixed_history:
  "map_of mixedFile ''alice'' =
     Some (heldAccount
       \<lparr>balance := JNum 997750,
        holdings := Some [(''HOG'', \<lparr>position = JNum 15, averagePrice = JNum (12333 / 100)\<rparr>),
                          (''GOLD'', \<lparr>position = JNum 1, averagePrice = JNum 400\<rparr>)],
        history :=
          Some [\<lparr>entry_id = ''g'', timestamp = ''2024-01-03T00:00:00.000Z'', entry_type = ''buy'',
                 entry_symbol = Some ''GOLD'', quantity = JNum 1, price = JNum 400,
                 balanceAfter = JNum 997750, positionAfter = JNum 1, realizedPnl = JNum 0\<rparr>,
                \<lparr>entry_id = ''2'', timestamp = ''2024-01-01T00:00:00.000Z'', entry_type = ''buy'',
                 entry_symbol = Some ''HOG'', quantity = JNum 5, price = JNum 130,
                 balanceAfter = JNum 998150, positionAfter = JNum 15, realizedPnl = JNum 0\<rparr>,
                \<lparr>entry_id = ''1'', timestamp = ''2024-01-01T00:00:00.000Z'', entry_type = ''buy'',
                 entry_symbol = Some ''HOG'', quantity = JNum 10, price = JNum 120,
                 balanceAfter = JNum 998800, positionAfter = JNum 10, realizedPnl = JNum 0\<rparr>]\<rparr>)"
  by code_simp











section \<open>Claims\<close>

text \<open>
  Claim C9 (migration on load). \<open>readUsers\<close> hands out every record normalised, and
  afterwards the file holds the table it handed out: it was rewritten exactly when the
  normalisation changed a record. A record without \<open>holdings\<close> whose older position is
  a number other than zero gets that position and its average price (0 when it has
  none) as the holding of \<open>HOG\<close>, and empty holdings when it has no such position;
  a \<open>history\<close> that is no array becomes the empty list; an entry without a symbol is
  tagged \<open>HOG\<close> and every other entry is kept; a record of the current shape is
  returned as it is, and so is a table of such records.
\<close>

theorem readUsers_migrates:
  "fst (readUsers tbl) = map (\<lambda>(name, u). (name, fst (normalizeUser u))) tbl
   \<and> snd (readUsers tbl) = fst (readUsers tbl)
   \<and> snd (normalizeEntries tbl) = (fst (readUsers tbl) \<noteq> tbl)
   \<and> (holdings u = None \<and> user_position u = JNum r \<and> r \<noteq> 0 \<and> user_averagePrice u = JNum a \<longrightarrow>
        holdings (fst (normalizeUser u)) =
          Some [(''HOG'', \<lparr>position = JNum r, averagePrice = JNum a\<rparr>)])
   \<and> (holdings u = None \<and> user_position u = JNum r \<and> r \<noteq> 0 \<and> user_averagePrice u = JUndefined \<longrightarrow>
        holdings (fst (normalizeUser u)) =
          Some [(''HOG'', \<lparr>position = JNum r, averagePrice = JNum 0\<rparr>)])
   \<and> (holdings u = None \<and> (\<forall>r. user_position u = JNum r \<longrightarrow> r = 0) \<longrightarrow>
        holdings (fst (normalizeUser u)) = Some [])
   \<and> (history u = None \<longrightarrow> history (fst (normalizeUser u)) = Some [])
   \<and> (history u = Some es \<longrightarrow> history (fst (normalizeUser u)) = Some (map tagSymbol es))
   \<and> (missingSymbol e \<longrightarrow> tagSymbol e = e\<lparr>entry_symbol := Some ''HOG''\<rparr>)
   \<and> (\<not> missingSymbol e \<longrightarrow> tagSymbol e = e)
   \<and> (currentShape u \<longrightarrow> normalizeUser u = (u, False))
   \<and> (list_all (\<lambda>(name, u). currentShape u) tbl \<longrightarrow> readUsers tbl = (tbl, tbl))"
proof -
  have p1: "fst (readUsers tbl) = map (\<lambda>(name, u). (name, fst (normalizeUser u))) tbl"
    by (simp add: readUsers_eq fst_normalizeEntries)
  have p2: "snd (readUsers tbl) = fst (readUsers tbl)"
    by (simp add: readUsers_eq)
  have p3: "snd (normalizeEntries tbl) = (fst (readUsers tbl) \<noteq> tbl)"
    using normalizeEntries_changed [of tbl] by (simp add: readUsers_eq)
  have p4: "history u = None \<longrightarrow> history (fst (normalizeUser u)) = Some []"
    by (simp add: history_normalizeUser)
  have p5: "history u = Some es \<longrightarrow> history (fst (normalizeUser u)) = Some (map tagSymbol es)"
    by (simp add: history_normalizeUser)
  have p6: "missingSymbol e \<longrightarrow> tagSymbol e = e\<lparr>entry_symbol := Some ''HOG''\<rparr>"
    by (simp add: tagSymbol_def)
  have p7: "\<not> missingSymbol e \<longrightarrow> tagSymbol e = e"
    by (simp add: tagSymbol_def)
  show ?thesis
    using p1 p2 p3 p4 p5 p6 p7 legacy_holdings_number [of u r a] legacy_holdings_none [of u]
      legacy_holdings_no_price [of u r]
      normalizeUser_current [of u] readUsers_current [of tbl]
    by blast
qed

theorem readUsers_migrates_witness:
  "readUsers
     [(''bob'',
       \<lparr>password = ''pw'', balance = JNum 5000, holdings = None,
        history = Some [\<lparr>entry_id = ''1'', timestamp = ''t'', entry_type = ''buy'',
                         entry_symbol = None, quantity = JNum 3, price = JNum 100,
                         balanceAfter = JNum 5000, positionAfter = JNum 3, realizedPnl = JNum 0\<rparr>],
        aiInsights = None, user_position = JNum 3, user_averagePrice = JNum 100\<rparr>)]
   = ([(''bob'',
        \<lparr>password = ''pw'', balance = JNum 5000,
         holdings = Some [(''HOG'', \<lparr>position = JNum 3, averagePrice = JNum 100\<rparr>)],
         history = Some [\<lparr>entry_id = ''1'', timestamp = ''t'', entry_type = ''buy'',
                          entry_symbol = Some ''HOG'', quantity = JNum 3, price = JNum 100,
                          balanceAfter = JNum 5000, positionAfter = JNum 3, realizedPnl = JNum 0\<rparr>],
         aiInsights = Some [], user_position = JUndefined, user_averagePrice = JUndefined\<rparr>)],
       [(''bob'',
        \<lparr>password = ''pw'', balance = JNum 5000,
         holdings = Some [(''HOG'', \<lparr>position = JNum 3, averagePrice = JNum 100\<rparr>)],
         history = Some [\<lparr>entry_id = ''1'', timestamp = ''t'', entry_type = ''buy'',
                          entry_symbol = Some ''HOG'', quantity = JNum 3, price = JNum 100,
                          balanceAfter = JNum 5000, positionAfter = JNum 3, realizedPnl = JNum 0\<rparr>],
         aiInsights = Some [], user_position = JUndefined, user_averagePrice = JUndefined\<rparr>)])"
  using readUsers_migrates
    [of "[(''bob'',
       \<lparr>password = ''pw'', balance = JNum 5000, holdings = None,
        history = Some [\<lparr>entry_id = ''1'', timestamp = ''t'', entry_type = ''buy'',
                         entry_symbol = None, quantity = JNum 3, price = JNum 100,
                         balanceAfter = JNum 5000, positionAfter = JNum 3, realizedPnl = JNum 0\<rparr>],
        aiInsights = None, user_position = JNum 3, user_averagePrice = JNum 100\<rparr>)]"
       "\<lparr>password = ''pw'', balance = JNum 5000, holdings = None,
        history = Some [\<lparr>entry_id = ''1'', timestamp = ''t'', entry_type = ''buy'',
                         entry_symbol = None, quantity = JNum 3, price = JNum 100,
                         balanceAfter = JNum 5000, positionAfter = JNum 3, realizedPnl = JNum 0\<rparr>],
        aiInsights = None, user_position = JNum 3, user_averagePrice = JNum 100\<rparr>"
       3 100
       "[\<lparr>entry_id = ''1'', timestamp = ''t'', entry_type = ''buy'',
                         entry_symbol = None, quantity = JNum 3, price = JNum 100,
                         balanceAfter = JNum 5000, positionAfter = JNum 3, realizedPnl = JNum 0\<rparr>]"
       "\<lparr>entry_id = ''1'', timestamp = ''t'', entry_type = ''buy'',
                         entry_symbol = None, quantity = JNum 3, price = JNum 100,
                         balanceAfter = JNum 5000, positionAfter = JNum 3, realizedPnl = JNum 0\<rparr>"]
  by (simp add: prod_eq_iff missingSymbol_def normalizeUser_def Let_def legacyHoldings_def
      tagSymbol_def)





text \<open>
  Claim C3 (atomicity under failure). A request that fails leaves the table every
  handler loads as it was, every record of the current shape as it was, and the whole
  file as it was when all its records have the current shape. An accepted sell whose
  quantity is above the position the trade loads answers \<open>InsufficientPosition\<close> and
  the record, with its balance, holdings and history, is the one before the call.
\<close>

theorem failure_atomic:
  "(fst (handleTrade uuid now tbl name b) = Inl err \<longrightarrow>
      fst (readUsers (snd (handleTrade uuid now tbl name b))) = fst (readUsers tbl) \<and>
      (map_of tbl acct = Some w \<and> currentShape w \<longrightarrow>
         map_of (snd (handleTrade uuid now tbl name b)) acct = Some w) \<and>
      (list_all (\<lambda>(name, u). currentShape u) tbl \<longrightarrow>
         snd (handleTrade uuid now tbl name b) = tbl))
   \<and> (accepted b \<and> body_type b = Some ''sell'' \<and> map_of tbl name = Some v \<and> currentShape v \<and>
        jlt (position (ensureHoldingStructure (map_of (holdingsOf v) (trimmedSymbol b)))) (qty b) \<longrightarrow>
        fst (handleTrade uuid now tbl name b) = Inl InsufficientPosition \<and>
        map_of (snd (handleTrade uuid now tbl name b)) name = Some v)"
proof (intro conjI impI)
  assume err: "fst (handleTrade uuid now tbl name b) = Inl err"
  from handleTrade_failure [OF err]
  have cases: "snd (handleTrade uuid now tbl name b) = tbl \<or>
               snd (handleTrade uuid now tbl name b) = fst (normalizeEntries tbl)"
    by (simp split: if_splits)
  show "fst (readUsers (snd (handleTrade uuid now tbl name b))) = fst (readUsers tbl)"
    using cases by (auto simp: readUsers_eq normalizeEntries_idem)
  show "map_of (snd (handleTrade uuid now tbl name b)) acct = Some w"
    if "map_of tbl acct = Some w \<and> currentShape w"
    using cases that by (auto simp: loaded_account)
  show "snd (handleTrade uuid now tbl name b) = tbl"
    if "list_all (\<lambda>(name, u). currentShape u) tbl"
    using cases that by (auto simp: all_current)
next
  assume h: "accepted b \<and> body_type b = Some ''sell'' \<and> map_of tbl name = Some v \<and> currentShape v \<and>
        jlt (position (ensureHoldingStructure (map_of (holdingsOf v) (trimmedSymbol b)))) (qty b)"
  then have r: "handleTrade uuid now tbl name b = (Inl InsufficientPosition, fst (normalizeEntries tbl))"
    using sell_rejected by blast
  show "fst (handleTrade uuid now tbl name b) = Inl InsufficientPosition" by (simp add: r)
  show "map_of (snd (handleTrade uuid now tbl name b)) name = Some v"
    using h by (simp add: r loaded_account)
qed

theorem failure_atomic_witness:
  "fst (readUsers (snd (handleTrade ''4'' ''2024-01-02'' heldFile ''alice''
                          (order ''sell'' (Fin 20) (Fin 140))))) = fst (readUsers heldFile)
   \<and> map_of (snd (handleTrade ''4'' ''2024-01-02'' heldFile ''alice''
                    (order ''sell'' (Fin 20) (Fin 140)))) ''alice'' = Some heldAccount
   \<and> snd (handleTrade ''4'' ''2024-01-02'' heldFile ''alice'' (order ''sell'' (Fin 20) (Fin 140)))
       = heldFile
   \<and> fst (handleTrade ''4'' ''2024-01-02'' heldFile ''alice'' (order ''sell'' (Fin 20) (Fin 140)))
       = Inl InsufficientPosition"
proof -
  have sell: "body_type (order ''sell'' (Fin 20) (Fin 140)) = Some ''sell''"
    by (simp add: order_def)
  have acc: "accepted (order ''sell'' (Fin 20) (Fin 140))"
    by (simp add: accepted_sample)
  have rejected: "fst (handleTrade ''4'' ''2024-01-02'' heldFile ''alice''
      (order ''sell'' (Fin 20) (Fin 140))) = Inl InsufficientPosition"
    using failure_atomic [where uuid = "''4''" and now = "''2024-01-02''" and tbl = heldFile
        and name = "''alice''" and b = "order ''sell'' (Fin 20) (Fin 140)"
        and err = InsufficientPosition and acct = "''alice''" and w = heldAccount and v = heldAccount]
      sell acc oversell held_facts
    by simp
  show ?thesis
    using failure_atomic [where uuid = "''4''" and now = "''2024-01-02''" and tbl = heldFile
        and name = "''alice''" and b = "order ''sell'' (Fin 20) (Fin 140)"
        and err = InsufficientPosition and acct = "''alice''" and w = heldAccount and v = heldAccount]
      rejected held_facts
    by simp
qed







text \<open>
  Claim C6 (input validation), as amended. The checks run in this order and the first
  failure answers, with the file untouched: a trade type other than \<open>buy\<close> and
  \<open>sell\<close> answers \<open>InvalidSide\<close>; a symbol that is no string or is empty after
  trimming answers \<open>InvalidSymbol\<close>; a quantity or a price that does not compare
  \<open>> 0\<close> answers \<open>InvalidAmount\<close>; an accepted request of a user without a record
  answers \<open>UnknownAccount\<close>, after the load; an accepted request of a user with a
  record answers none of the four. A number compares \<open>> 0\<close> when it is finite and above
  zero or when it is \<open>+Infinity\<close>: \<open>NaN\<close>, zero, the numbers below zero and
  \<open>-Infinity\<close> are refused, \<open>+Infinity\<close> is not. The symbol of the entry is the
  trimmed symbol in upper case.
\<close>

theorem input_validation:
  "(body_type b \<noteq> Some ''buy'' \<and> body_type b \<noteq> Some ''sell'' \<longrightarrow>
      handleTrade uuid now tbl name b = (Inl InvalidSide, tbl))
   \<and> ((body_type b = Some ''buy'' \<or> body_type b = Some ''sell'') \<and> trimmedSymbol b = [] \<longrightarrow>
        handleTrade uuid now tbl name b = (Inl InvalidSymbol, tbl))
   \<and> ((body_type b = Some ''buy'' \<or> body_type b = Some ''sell'') \<and> trimmedSymbol b \<noteq> [] \<and>
        \<not> (jlt (Fin 0) (qty b) \<and> jlt (Fin 0) (tradePrice b)) \<longrightarrow>
        handleTrade uuid now tbl name b = (Inl InvalidAmount, tbl))
   \<and> (accepted b \<and> map_of tbl name = None \<longrightarrow>
        handleTrade uuid now tbl name b = (Inl UnknownAccount, fst (readUsers tbl)))
   \<and> (accepted b \<and> map_of tbl name \<noteq> None \<longrightarrow>
        fst (handleTrade uuid now tbl name b) \<notin>
          {Inl InvalidSide, Inl InvalidSymbol, Inl InvalidAmount, Inl UnknownAccount})
   \<and> jlt (Fin 0) x = (x = PosInf \<or> (\<exists>r. x = Fin r \<and> 0 < r))
   \<and> (body_symbol b = None \<longrightarrow> trimmedSymbol b = [])
   \<and> (body_symbol b = Some s \<longrightarrow> trimmedSymbol b = toUpperCase (trim s))
   \<and> (fst (handleTrade uuid now tbl name b) = Inr e \<longrightarrow> entry_symbol e = Some (trimmedSymbol b))"
proof -
  have side: "body_type b \<noteq> Some ''buy'' \<and> body_type b \<noteq> Some ''sell'' \<longrightarrow>
      handleTrade uuid now tbl name b = (Inl InvalidSide, tbl)"
    by (simp add: handleTrade_rejected accepted_def)
  have sym: "(body_type b = Some ''buy'' \<or> body_type b = Some ''sell'') \<and> trimmedSymbol b = [] \<longrightarrow>
        handleTrade uuid now tbl name b = (Inl InvalidSymbol, tbl)"
    by (auto simp: handleTrade_rejected accepted_def)
  have amt: "(body_type b = Some ''buy'' \<or> body_type b = Some ''sell'') \<and> trimmedSymbol b \<noteq> [] \<and>
        \<not> (jlt (Fin 0) (qty b) \<and> jlt (Fin 0) (tradePrice b)) \<longrightarrow>
        handleTrade uuid now tbl name b = (Inl InvalidAmount, tbl)"
    by (auto simp: handleTrade_rejected accepted_def)
  have trimmed: "(body_symbol b = None \<longrightarrow> trimmedSymbol b = []) \<and>
     (body_symbol b = Some s \<longrightarrow> trimmedSymbol b = toUpperCase (trim s))"
    by (simp add: trimmedSymbol_def)
  show ?thesis
    using side sym amt trimmed handleTrade_unknown [of b tbl name uuid now]
      handleTrade_known [of b tbl name uuid now] positive_iff [of x]
      handleTrade_symbol [of uuid now tbl name b e]
    by blast
qed

theorem input_validation_witness:
  "handleTrade ''7'' ''2024-01-02'' aliceFile ''alice'' (order ''hold'' (Fin 1) (Fin 1))
     = (Inl InvalidSide, aliceFile)
   \<and> handleTrade ''7'' ''2024-01-02'' aliceFile ''alice''
       \<lparr>body_type = Some ''buy'', qty = Fin 1, tradePrice = Fin 1, body_symbol = Some ''  ''\<rparr>
     = (Inl InvalidSymbol, aliceFile)
   \<and> handleTrade ''7'' ''2024-01-02'' aliceFile ''alice'' (order ''buy'' NaN (Fin 1))
     = (Inl InvalidAmount, aliceFile)
   \<and> handleTrade ''7'' ''2024-01-02'' aliceFile ''alice'' (order ''buy'' (Fin 1) (Fin (- 1)))
     = (Inl InvalidAmount, aliceFile)
   \<and> handleTrade ''7'' ''2024-01-02'' aliceFile ''bob'' (order ''buy'' (Fin 1) (Fin 1))
     = (Inl UnknownAccount, aliceFile)"
proof -
  have blank: "trimmedSymbol \<lparr>body_type = Some ''buy'', qty = Fin 1, tradePrice = Fin 1,
      body_symbol = Some ''  ''\<rparr> = []"
    by (simp add: trimmedSymbol_def trim_def isWhiteSpace_def toUpperCase_def)
  have acc: "accepted (order ''buy'' (Fin 1) (Fin 1))"
    by (simp add: accepted_sample)
  have nobody: "map_of aliceFile ''bob'' = None"
    by (simp add: aliceFile_def)
  have loaded: "fst (readUsers aliceFile) = aliceFile"
    by (simp add: readUsers_current aliceFile_def currentShape_def newUser_def)
  show ?thesis
    using input_validation [where b = "order ''hold'' (Fin 1) (Fin 1)" and tbl = aliceFile
        and name = "''alice''" and uuid = "''7''" and now = "''2024-01-02''"]
      input_validation [where b = "\<lparr>body_type = Some ''buy'', qty = Fin 1, tradePrice = Fin 1,
          body_symbol = Some ''  ''\<rparr>" and tbl = aliceFile
        and name = "''alice''" and uuid = "''7''" and now = "''2024-01-02''"]
      input_validation [where b = "order ''buy'' NaN (Fin 1)" and tbl = aliceFile
        and name = "''alice''" and uuid = "''7''" and now = "''2024-01-02''"]
      input_validation [where b = "order ''buy'' (Fin 1) (Fin (- 1))" and tbl = aliceFile
        and name = "''alice''" and uuid = "''7''" and now = "''2024-01-02''"]
      input_validation [where b = "order ''buy'' (Fin 1) (Fin 1)" and tbl = aliceFile
        and name = "''bob''" and uuid = "''7''" and now = "''2024-01-02''"]
      blank acc nobody loaded
    by (simp add: body_facts trimmed_order)
qed

text \<open>
  Claim C6 as stated fails: a request with an infinite quantity or price is not refused
  with \<open>InvalidAmount\<close>. A buy of the quantity \<open>+Infinity\<close> goes on to the balance
  check and answers \<open>InsufficientFunds\<close>; a sell of one unit at the price \<open>+Infinity\<close>
  succeeds and leaves the balance \<open>null\<close> in the file.
\<close>

theorem infinite_amount_counterexample:
  "handleTrade ''5'' ''2024-01-02'' aliceFile ''alice'' (order ''buy'' PosInf (Fin 1))
     = (Inl InsufficientFunds, aliceFile)
   \<and> handleTrade ''5'' ''2024-01-02'' heldFile ''alice'' (order ''sell'' (Fin 1) PosInf)
     = (Inr \<lparr>entry_id = ''5'', timestamp = ''2024-01-02'', entry_type = ''sell'',
             entry_symbol = Some ''HOG'', quantity = JNum 1, price = JNull,
             balanceAfter = JNull, positionAfter = JNum 14, realizedPnl = JNull\<rparr>,
        [(''alice'',
          heldAccount
            \<lparr>balance := JNull,
             holdings := Some [(''HOG'', \<lparr>position = JNum 14, averagePrice = JNum (12333 / 100)\<rparr>)],
             history :=
               Some (\<lparr>entry_id = ''5'', timestamp = ''2024-01-02'', entry_type = ''sell'',
                      entry_symbol = Some ''HOG'', quantity = JNum 1, price = JNull,
                      balanceAfter = JNull, positionAfter = JNum 14, realizedPnl = JNull\<rparr>
                     # the (history heldAccount))\<rparr>)])"
  by code_simp

text \<open>
  Claim C8 (history query). \<open>handleHistory\<close> answers \<open>UnknownAccount\<close> for a user
  without a record. For a user with a record it answers the history that the load hands
  out, which is the stored one for a record of the current shape: all of it when the
  query has no symbol or an empty one, and otherwise the entries whose symbol is the
  symbol of the query in upper case, in the stored order. The table every handler loads
  is the same afterwards, and the file is untouched when all its records have the
  current shape.
\<close>

theorem history_query:
  "(map_of tbl name = None \<longrightarrow> fst (handleHistory tbl name param) = Inl UnknownAccount)
   \<and> (map_of tbl name = Some u \<and> history (fst (normalizeUser u)) = Some es \<longrightarrow>
        fst (handleHistory tbl name None) = Inr es \<and>
        fst (handleHistory tbl name (Some [])) = Inr es \<and>
        (s \<noteq> [] \<longrightarrow>
           fst (handleHistory tbl name (Some s)) =
             Inr (filter (\<lambda>e. entry_symbol e = Some (toUpperCase s)) es) \<and>
           subseq (filter (\<lambda>e. entry_symbol e = Some (toUpperCase s)) es) es))
   \<and> (currentShape u \<longrightarrow> history (fst (normalizeUser u)) = history u)
   \<and> fst (readUsers (snd (handleHistory tbl name param))) = fst (readUsers tbl)
   \<and> (list_all (\<lambda>(name, u). currentShape u) tbl \<longrightarrow> snd (handleHistory tbl name param) = tbl)"
proof -
  have cur: "currentShape u \<longrightarrow> history (fst (normalizeUser u)) = history u"
    by (simp add: normalizeUser_current)
  have view: "fst (readUsers (snd (handleHistory tbl name param))) = fst (readUsers tbl)"
    by (simp add: handleHistory_file readUsers_eq normalizeEntries_idem)
  have same: "list_all (\<lambda>(name, u). currentShape u) tbl \<longrightarrow> snd (handleHistory tbl name param) = tbl"
    by (simp add: handleHistory_file all_current)
  show ?thesis
    using cur view same handleHistory_unknown [of tbl name param]
      handleHistory_all [of tbl name u es None] handleHistory_all [of tbl name u es "Some []"]
      handleHistory_filter [of tbl name u es s]
      subseq_filter_left [of "\<lambda>e. entry_symbol e = Some (toUpperCase s)" es]
    by blast
qed

theorem history_query_witness:
  "fst (handleHistory mixedFile ''bob'' (Some ''hog'')) = Inl UnknownAccount
   \<and> map_sum id (map entry_id) (fst (handleHistory mixedFile ''alice'' None)) = Inr [''g'', ''2'', ''1'']
   \<and> map_sum id (map entry_id) (fst (handleHistory mixedFile ''alice'' (Some ''hog''))) = Inr [''2'', ''1'']
   \<and> map_sum id (map entry_id) (fst (handleHistory mixedFile ''alice'' (Some ''gold''))) = Inr [''g'']
   \<and> snd (handleHistory mixedFile ''alice'' (Some ''hog'')) = mixedFile"
proof -
  have shape: "list_all (\<lambda>(name, u). currentShape u) mixedFile"
    by code_simp
  have nobody: "map_of mixedFile ''bob'' = None"
    by code_simp
  have upper: "toUpperCase ''hog'' = ''HOG''" "toUpperCase ''gold'' = ''GOLD''"
    by (simp_all add: toUpperCase_def toUpperChar_def)
  have norm: "history (fst (normalizeUser (the (map_of mixedFile ''alice'')))) =
     history (the (map_of mixedFile ''alice''))"
    by code_simp
  show ?thesis
    using history_query [where tbl = mixedFile and name = "''bob''" and param = "Some ''hog''"]
      history_query [where tbl = mixedFile and name = "''alice''" and param = "Some ''hog''"
        and u = "the (map_of mixedFile ''alice'')" and s = "''hog''"
        and es = "the (history (the (map_of mixedFile ''alice'')))"]
      history_query [where tbl = mixedFile and name = "''alice''" and param = "Some ''hog''"
        and u = "the (map_of mixedFile ''alice'')" and s = "''gold''"
        and es = "the (history (the (map_of mixedFile ''alice'')))"]
      shape nobody norm
    by (simp add: mixed_history upper heldAccount_def)
qed




end
